theory Spec2Isabelle
  imports Main "HOL-Library.Log_Nat"
begin

section \<open>Python values that reach the handler\<close>

text \<open>
  The handler of \<^verbatim>\<open>backend/ml/app.py\<close> receives \<^verbatim>\<open>data: dict\<close>, the decoded JSON
  body. Its values are the Python objects a JSON decoder produces. A Python \<^verbatim>\<open>str\<close> is a
  \<open>string\<close> whose characters are the code points below 256. A Python \<^verbatim>\<open>float\<close> is a
  binary64 value: a finite one is given by the rational number it denotes, and the two
  zeros, the two infinities and NaN are separate values.
\<close>

datatype pyfloat = Finite rat | NegZero | PosInf | NegInf | NaN

datatype pyval =
    PyNone
  | PyBool bool
  | PyInt int
  | PyFloat pyfloat
  | PyStr string
  | PyList "pyval list"
  | PyDict "(string \<times> pyval) list"

type_synonym payload = "string \<rightharpoonup> pyval"

text \<open>
  Exceptions (subclasses of \<^verbatim>\<open>Exception\<close>) are values. \<open>KeyError\<close> carries the missing key,
  every other class carries its message; \<open>OtherError\<close> stands for any class the loaded
  artifacts raise on their own.
\<close>

datatype exn =
    KeyError string
  | ValueError string
  | TypeError string
  | OverflowError string
  | IndexError string
  | FileNotFoundError string
  | OtherError string

definition seq :: "exn + 'a \<Rightarrow> ('a \<Rightarrow> exn + 'b) \<Rightarrow> exn + 'b" where
  \<comment> \<open>one statement after another: the first exception ends the block\<close>
  "seq m f = (case m of Inl e \<Rightarrow> Inl e | Inr x \<Rightarrow> f x)"

subsection \<open>\<^verbatim>\<open>repr\<close> and \<^verbatim>\<open>str\<close>\<close>

definition hex_digit :: "nat \<Rightarrow> char" where
  "hex_digit n = ''0123456789abcdef'' ! (n mod 16)"

definition printable :: "char \<Rightarrow> bool" where
  "printable c = (let n = (of_char c :: nat)
                  in \<not> (n < 32 \<or> (127 \<le> n \<and> n \<le> 160) \<or> n = 173))"

definition repr_char :: "char \<Rightarrow> char \<Rightarrow> string" where
  "repr_char quote c =
     (if c = quote \<or> c = CHR 0x5C then [CHR 0x5C, c]
      else if c = CHR 0x09 then [CHR 0x5C, CHR ''t'']
      else if c = CHR 0x0A then [CHR 0x5C, CHR ''n'']
      else if c = CHR 0x0D then [CHR 0x5C, CHR ''r'']
      else if \<not> printable c
        then [CHR 0x5C, CHR ''x'', hex_digit (of_char c div 16), hex_digit (of_char c)]
      else [c])"

definition repr :: "string \<Rightarrow> string" where
  \<comment> \<open>\<^verbatim>\<open>repr(s)\<close> of a str: single quotes unless the text has a single and no double quote\<close>
  "repr s =
     (let quote = (if CHR 0x27 \<in> set s \<and> CHR 0x22 \<notin> set s then CHR 0x22 else CHR 0x27)
      in quote # concat (map (repr_char quote) s) @ [quote])"

fun str :: "exn \<Rightarrow> string" where
  \<comment> \<open>\<^verbatim>\<open>str(e)\<close>: the message; for a \<^verbatim>\<open>KeyError\<close> the \<^verbatim>\<open>repr\<close> of the key\<close>
  "str (KeyError k) = repr k"
| "str (ValueError m) = m"
| "str (TypeError m) = m"
| "str (OverflowError m) = m"
| "str (IndexError m) = m"
| "str (FileNotFoundError m) = m"
| "str (OtherError m) = m"

fun decimal :: "nat \<Rightarrow> string" where
  "decimal n = (if n < 10 then [hex_digit n] else decimal (n div 10) @ [hex_digit (n mod 10)])"

fun type_name :: "pyval \<Rightarrow> string" where
  "type_name PyNone = ''NoneType''"
| "type_name (PyBool _) = ''bool''"
| "type_name (PyInt _) = ''int''"
| "type_name (PyFloat _) = ''float''"
| "type_name (PyStr _) = ''str''"
| "type_name (PyList _) = ''list''"
| "type_name (PyDict _) = ''dict''"

subsection \<open>Rounding to binary64\<close>

definition floor_log2 :: "int \<Rightarrow> int \<Rightarrow> int" where
  \<comment> \<open>\<open>\<lfloor>log\<^sub>2 (a / b)\<rfloor>\<close> for positive \<open>a\<close> and \<open>b\<close>\<close>
  "floor_log2 a b =
     (let k = bitlen a - bitlen b
      in if (2::rat) powi k \<le> of_int a / of_int b then k else k - 1)"

definition round_half_even :: "rat \<Rightarrow> int" where
  "round_half_even x =
     (let n = \<lfloor>x\<rfloor>; d = x - of_int n
      in if d < 1 / 2 \<or> (d = 1 / 2 \<and> even n) then n else n + 1)"

definition binary64 :: "int \<Rightarrow> int \<Rightarrow> rat" where
  \<comment> \<open>the multiple of the unit in the last place nearest to \<open>a / b\<close> (\<open>0 \<le> a\<close>, \<open>0 < b\<close>), ties to even;
      a result of \<open>2 ^ 1024\<close> or more is out of range\<close>
  "binary64 a b =
     (if a = 0 then 0
      else let e = max (floor_log2 a b) (- 1022);
               ulp = (2::rat) powi (e - 52)
           in of_int (round_half_even (of_int a / of_int b / ulp)) * ulp)"

definition float_max :: rat where
  "float_max = 2 ^ 1024"

subsection \<open>Numeric literals in a str\<close>

definition is_space :: "char \<Rightarrow> bool" where
  "is_space c = (let n = (of_char c :: nat) in (9 \<le> n \<and> n \<le> 13) \<or> n = 32)"

definition to_ascii_space :: "char \<Rightarrow> char" where
  \<comment> \<open>the two non-ASCII white-space code points below 256 count as a space\<close>
  "to_ascii_space c = (if c = CHR 0x85 \<or> c = CHR 0xA0 then CHR 0x20 else c)"

definition strip :: "string \<Rightarrow> string" where
  "strip s = rev (dropWhile is_space (rev (dropWhile is_space (map to_ascii_space s))))"

definition is_digit :: "char \<Rightarrow> bool" where
  "is_digit c = (let n = (of_char c :: nat) in 48 \<le> n \<and> n \<le> 57)"

definition digits_value :: "string \<Rightarrow> int" where
  "digits_value ds = foldl (\<lambda>a c. 10 * a + (of_char c - 48)) 0 ds"

fun remove_underscores :: "char \<Rightarrow> string \<Rightarrow> string option" where
  \<comment> \<open>an underscore is allowed only between two digits\<close>
  "remove_underscores prev [] = Some []"
| "remove_underscores prev (c # cs) =
     (if c = CHR ''_''
      then (case cs of
              [] \<Rightarrow> None
            | d # _ \<Rightarrow> if is_digit prev \<and> is_digit d then remove_underscores c cs else None)
      else map_option ((#) c) (remove_underscores c cs))"

definition split_sign :: "string \<Rightarrow> bool \<times> string" where
  "split_sign s =
     (case s of
        [] \<Rightarrow> (False, [])
      | c # r \<Rightarrow> if c = CHR ''-'' then (True, r) else if c = CHR ''+'' then (False, r)
                else (False, s))"

definition to_lower :: "char \<Rightarrow> char" where
  "to_lower c = (let n = (of_char c :: nat) in if 65 \<le> n \<and> n \<le> 90 then char_of (n + 32) else c)"

definition parse_exponent :: "string \<Rightarrow> int option" where
  \<comment> \<open>what follows the mantissa: nothing, or \<^verbatim>\<open>e\<close>, an optional sign and digits\<close>
  "parse_exponent r =
     (case r of
        [] \<Rightarrow> Some 0
      | c # r' \<Rightarrow>
          if c = CHR ''e'' \<or> c = CHR ''E''
          then (let (neg, ds) = split_sign r'
                in if ds \<noteq> [] \<and> list_all is_digit ds
                   then Some ((if neg then - 1 else 1) * digits_value ds)
                   else None)
          else None)"

definition round_literal :: "bool \<Rightarrow> int \<Rightarrow> int \<Rightarrow> pyfloat" where
  \<comment> \<open>the float nearest to \<open>\<plusminus> m \<times> 10 ^ k\<close>; a literal out of range gives an infinity, a
      literal that rounds to zero keeps its sign\<close>
  "round_literal neg m k =
     (let r = (if 0 \<le> k then binary64 (m * 10 ^ nat k) 1 else binary64 m (10 ^ nat (- k)))
      in if float_max \<le> r then (if neg then NegInf else PosInf)
         else if r = 0 then (if neg then NegZero else Finite 0)
         else Finite (if neg then - r else r))"

definition parse_float :: "string \<Rightarrow> pyfloat option" where
  "parse_float u =
     (let (neg, body) = split_sign u;
          word = map to_lower body
      in if word = ''inf'' \<or> word = ''infinity'' then Some (if neg then NegInf else PosInf)
         else if word = ''nan'' then Some NaN
         else
           let ip = takeWhile is_digit body;
               r1 = dropWhile is_digit body;
               (fp, r2) = (case r1 of
                             [] \<Rightarrow> ([], r1)
                           | c # r \<Rightarrow> if c = CHR ''.''
                                       then (takeWhile is_digit r, dropWhile is_digit r)
                                       else ([], r1))
           in if ip @ fp = [] then None
              else map_option
                     (\<lambda>ex. round_literal neg (digits_value (ip @ fp)) (ex - int (length fp)))
                     (parse_exponent r2))"

subsection \<open>The built-in conversions \<^verbatim>\<open>float(v)\<close> and \<^verbatim>\<open>int(v)\<close>\<close>

definition float_of_str :: "string \<Rightarrow> exn + pyfloat" where
  "float_of_str s =
     (case remove_underscores (CHR 0x00) (strip s) of
        None \<Rightarrow> Inl (ValueError (''could not convert string to float: '' @ repr s))
      | Some u \<Rightarrow>
          (case parse_float u of
             None \<Rightarrow> Inl (ValueError (''could not convert string to float: '' @ repr s))
           | Some f \<Rightarrow> Inr f))"

definition float_of_int :: "int \<Rightarrow> exn + pyfloat" where
  "float_of_int i =
     (let r = binary64 \<bar>i\<bar> 1
      in if float_max \<le> r then Inl (OverflowError ''int too large to convert to float'')
         else Inr (Finite (if i < 0 then - r else r)))"

fun py_float :: "pyval \<Rightarrow> exn + pyfloat" where
  "py_float (PyFloat f) = Inr f"
| "py_float (PyInt i) = float_of_int i"
| "py_float (PyBool b) = Inr (Finite (if b then 1 else 0))"
| "py_float (PyStr s) = float_of_str s"
| "py_float v =
     Inl (TypeError (''float() argument must be a string or a real number, not ''
                     @ repr (type_name v)))"

definition int_max_str_digits :: nat where
  "int_max_str_digits = 4300"

definition int_of_str :: "string \<Rightarrow> exn + int" where
  \<comment> \<open>the message shows at most 200 characters of the \<^verbatim>\<open>repr\<close>\<close>
  "int_of_str s =
     (let (neg, body) = split_sign (strip s);
          run = takeWhile (\<lambda>c. is_digit c \<or> c = CHR ''_'') body;
          rest = dropWhile (\<lambda>c. is_digit c \<or> c = CHR ''_'') body;
          ds = filter is_digit run
      in if remove_underscores (CHR 0x00) run = None \<or> ds = []
         then Inl (ValueError (''invalid literal for int() with base 10: '' @ take 200 (repr s)))
         else if int_max_str_digits < length ds
         then Inl (ValueError (''Exceeds the limit ('' @ decimal int_max_str_digits
                @ '' digits) for integer string conversion: value has '' @ decimal (length ds)
                @ '' digits; use sys.set_int_max_str_digits() to increase the limit''))
         else if rest \<noteq> []
         then Inl (ValueError (''invalid literal for int() with base 10: '' @ take 200 (repr s)))
         else Inr ((if neg then - 1 else 1) * digits_value ds))"

fun int_of_float :: "pyfloat \<Rightarrow> exn + int" where
  \<comment> \<open>truncation toward zero\<close>
  "int_of_float (Finite x) = Inr (if 0 \<le> x then \<lfloor>x\<rfloor> else \<lceil>x\<rceil>)"
| "int_of_float NegZero = Inr 0"
| "int_of_float NaN = Inl (ValueError ''cannot convert float NaN to integer'')"
| "int_of_float f = Inl (OverflowError ''cannot convert float infinity to integer'')"

fun py_int :: "pyval \<Rightarrow> exn + int" where
  "py_int (PyInt i) = Inr i"
| "py_int (PyBool b) = Inr (if b then 1 else 0)"
| "py_int (PyFloat f) = int_of_float f"
| "py_int (PyStr s) = int_of_str s"
| "py_int v =
     Inl (TypeError (''int() argument must be a string, a bytes-like object or a real number, not ''
                     @ repr (type_name v)))"

section \<open>The loaded artifacts\<close>

text \<open>
  Modelled from the spec: the classifier artifact \<^verbatim>\<open>coa_model.pkl\<close> is not part of the
  repository. Building the array \<^verbatim>\<open>np.array(X)\<close> and calling \<^verbatim>\<open>model.predict\<close> on it is a
  function of the batch \<open>X\<close> (a list of rows): it returns one class id per row, or raises.
\<close>

type_synonym classifier = "pyval list list \<Rightarrow> exn + int list"

text \<open>
  Modelled from the spec: the two encoder artifacts \<^verbatim>\<open>topic_encoder.pkl\<close> and
  \<^verbatim>\<open>level_encoder.pkl\<close> are not part of the repository. An encoder is a fixed, closed
  vocabulary, the list of the labels seen in training; the code of a label is its position
  in that list. \<open>transform\<close> fails on a label that was never seen, \<open>inverse_transform\<close> on
  a class id outside the vocabulary.
\<close>

type_synonym encoder = "string list"

fun index_of :: "string list \<Rightarrow> string \<Rightarrow> int option" where
  "index_of [] s = None"
| "index_of (c # cs) s = (if c = s then Some 0 else map_option (\<lambda>i. i + 1) (index_of cs s))"

fun label_code :: "encoder \<Rightarrow> pyval \<Rightarrow> int option" where
  "label_code classes (PyStr s) = index_of classes s"
| "label_code classes v = None"

definition unseen_labels :: exn where
  "unseen_labels = ValueError ''y contains previously unseen labels''"

fun transform :: "encoder \<Rightarrow> pyval list \<Rightarrow> exn + int list" where
  "transform classes [] = Inr []"
| "transform classes (y # ys) =
     (case label_code classes y of
        None \<Rightarrow> Inl unseen_labels
      | Some c \<Rightarrow> seq (transform classes ys) (\<lambda>cs. Inr (c # cs)))"

fun inverse_transform :: "encoder \<Rightarrow> int list \<Rightarrow> exn + string list" where
  "inverse_transform classes [] = Inr []"
| "inverse_transform classes (y # ys) =
     (if 0 \<le> y \<and> y < int (length classes)
      then seq (inverse_transform classes ys) (\<lambda>ls. Inr (classes ! nat y # ls))
      else Inl unseen_labels)"

record globals =
  model :: classifier
  topic_encoder :: encoder
  level_encoder :: encoder

section \<open>The handler \<^verbatim>\<open>predict_level\<close>\<close>

definition getitem :: "payload \<Rightarrow> string \<Rightarrow> exn + pyval" where
  \<comment> \<open>\<^verbatim>\<open>data[k]\<close>\<close>
  "getitem data k = (case data k of None \<Rightarrow> Inl (KeyError k) | Some v \<Rightarrow> Inr v)"

definition first :: "'a list \<Rightarrow> exn + 'a" where
  \<comment> \<open>\<^verbatim>\<open>xs[0]\<close>\<close>
  "first xs =
     (case xs of
        [] \<Rightarrow> Inl (IndexError ''index 0 is out of bounds for axis 0 with size 0'')
      | x # _ \<Rightarrow> Inr x)"

definition try_block :: "globals \<Rightarrow> payload \<Rightarrow> exn + (string \<times> string) list" where
  \<comment> \<open>the statements between \<^verbatim>\<open>try:\<close> and \<^verbatim>\<open>except\<close>, in their order\<close>
  "try_block g data =
     seq (getitem data ''topic'') (\<lambda>topic.
     seq (seq (getitem data ''accuracy_percent'') py_float) (\<lambda>accuracy.
     seq (seq (getitem data ''avg_time_seconds'') py_float) (\<lambda>avg_time.
     seq (seq (getitem data ''attempts'') py_int) (\<lambda>attempts.
     seq (seq (transform (topic_encoder g) [topic]) first) (\<lambda>topic_encoded.
     let X = [[PyFloat accuracy, PyFloat avg_time, PyInt attempts, PyInt topic_encoded]]
     in
     seq (model g X) (\<lambda>prediction.
     seq (seq (inverse_transform (level_encoder g) prediction) first) (\<lambda>level.
     Inr [(''predicted_level'', level)])))))))"

datatype http_exception = HTTPException (status_code: nat) (detail: string)

definition predict_level :: "globals \<Rightarrow> payload \<Rightarrow> http_exception + (string \<times> string) list" where
  \<comment> \<open>\<^verbatim>\<open>except Exception as e: raise HTTPException(status_code=400, detail=str(e))\<close>\<close>
  "predict_level g data =
     (case try_block g data of
        Inr result \<Rightarrow> Inr result
      | Inl e \<Rightarrow> Inl (HTTPException 400 (str e)))"

section \<open>The route and the process\<close>

record response =
  status :: nat
  body :: "(string \<times> string) list"

text \<open>
  Modelled from the spec: the web framework is not part of the repository. A returned
  object is sent as JSON with status 200, a raised \<^verbatim>\<open>HTTPException\<close> with its status code
  and the body \<^verbatim>\<open>{"detail": ...}\<close>.
\<close>

definition post_predict :: "globals \<Rightarrow> payload \<Rightarrow> response" where
  \<comment> \<open>\<^verbatim>\<open>@app.post("/predict")\<close>\<close>
  "post_predict g data =
     (case predict_level g data of
        Inr result \<Rightarrow> \<lparr>status = 200, body = result\<rparr>
      | Inl (HTTPException code msg) \<Rightarrow> \<lparr>status = code, body = [(''detail'', msg)]\<rparr>)"

text \<open>
  The handler assigns to none of the module's globals, so a request leaves the process
  state as it found it. Requests are served one after the other.
\<close>

definition handle_request :: "payload \<Rightarrow> globals \<Rightarrow> response \<times> globals" where
  "handle_request data g = (post_predict g data, g)"

fun serve :: "payload list \<Rightarrow> globals \<Rightarrow> response list \<times> globals" where
  "serve [] g = ([], g)"
| "serve (data # rest) g =
     (let (r, g') = handle_request data g;
          (rs, g'') = serve rest g'
      in (r # rs, g''))"

text \<open>
  Modelled from the spec: \<^verbatim>\<open>joblib.load\<close> and the files it reads are not part of the
  repository. A file is missing, or its content does not deserialise, or it holds an object.
\<close>

datatype 'a pkl = Missing | Corrupt exn | Pickled 'a

record disk =
  coa_model_pkl :: "classifier pkl"
  topic_encoder_pkl :: "encoder pkl"
  level_encoder_pkl :: "encoder pkl"

definition joblib_load :: "string \<Rightarrow> 'a pkl \<Rightarrow> exn + 'a" where
  "joblib_load name f =
     (case f of
        Missing \<Rightarrow> Inl (FileNotFoundError (''[Errno 2] No such file or directory: '' @ repr name))
      | Corrupt e \<Rightarrow> Inl e
      | Pickled obj \<Rightarrow> Inr obj)"

definition load_artifacts :: "disk \<Rightarrow> exn + globals" where
  \<comment> \<open>the three assignments at the top level of the module, in their order\<close>
  "load_artifacts d =
     seq (joblib_load ''coa_model.pkl'' (coa_model_pkl d)) (\<lambda>m.
     seq (joblib_load ''topic_encoder.pkl'' (topic_encoder_pkl d)) (\<lambda>t.
     seq (joblib_load ''level_encoder.pkl'' (level_encoder_pkl d)) (\<lambda>l.
     Inr \<lparr>model = m, topic_encoder = t, level_encoder = l\<rparr>)))"

record process =
  fatal :: "exn option"
  responses :: "response list"

text \<open>
  Modelled from the spec: the server that imports the module is not part of the
  repository. An exception while the module is imported ends the process before any
  request is read; otherwise every request is answered by the route.
\<close>

definition run :: "disk \<Rightarrow> payload list \<Rightarrow> process" where
  "run d requests =
     (case load_artifacts d of
        Inl e \<Rightarrow> \<lparr>fatal = Some e, responses = []\<rparr>
      | Inr g \<Rightarrow> \<lparr>fatal = None, responses = fst (serve requests g)\<rparr>)"

section \<open>The artifacts as objects with hidden state\<close>

text \<open>
  Modelled from the spec: the three unpickled objects are not part of the repository, and a
  method of a Python object may read and change what the object holds. Here the objects
  share a hidden state \<open>'s\<close>; a call of \<^verbatim>\<open>model.predict\<close>, \<^verbatim>\<open>topic_encoder.transform\<close> or
  \<^verbatim>\<open>level_encoder.inverse_transform\<close> takes the state it finds and gives back its result, or
  the exception it raises, together with the state it leaves.
\<close>

type_synonym ('s, 'a) call = "'s \<Rightarrow> (exn + 'a) \<times> 's"

record 's objects =
  model_predict :: "pyval list list \<Rightarrow> ('s, int list) call"
  topic_encoder_transform :: "pyval list \<Rightarrow> ('s, int list) call"
  level_encoder_inverse_transform :: "int list \<Rightarrow> ('s, string list) call"

text \<open>
  \<open>returns r\<close> is a statement that calls no method, \<open>seq_call\<close> runs one call after another: an
  exception ends the sequence, and the state that the calls made so far have left stays.
\<close>

definition returns :: "exn + 'a \<Rightarrow> ('s, 'a) call" where
  "returns r s = (r, s)"

definition seq_call :: "('s, 'a) call \<Rightarrow> ('a \<Rightarrow> ('s, 'b) call) \<Rightarrow> ('s, 'b) call" where
  "seq_call m f s = (case m s of (Inl e, s') \<Rightarrow> (Inl e, s') | (Inr x, s') \<Rightarrow> f x s')"

text \<open>
  The handler over such objects: the statements of \<open>try_block\<close>, in the same order, with the
  state handed from each call to the next; then the \<^verbatim>\<open>except\<close> clause and the response as in
  \<open>predict_level\<close> and \<open>post_predict\<close>. The handler has no variable of its own that outlives a
  call: what one request can leave to the next is the state of the objects.
\<close>

definition try_block_objects :: "'s objects \<Rightarrow> payload \<Rightarrow> ('s, (string \<times> string) list) call" where
  "try_block_objects A data =
     seq_call (returns (getitem data ''topic'')) (\<lambda>topic.
     seq_call (returns (seq (getitem data ''accuracy_percent'') py_float)) (\<lambda>accuracy.
     seq_call (returns (seq (getitem data ''avg_time_seconds'') py_float)) (\<lambda>avg_time.
     seq_call (returns (seq (getitem data ''attempts'') py_int)) (\<lambda>attempts.
     seq_call (seq_call (topic_encoder_transform A [topic]) (\<lambda>codes. returns (first codes)))
       (\<lambda>topic_encoded.
     let X = [[PyFloat accuracy, PyFloat avg_time, PyInt attempts, PyInt topic_encoded]]
     in
     seq_call (model_predict A X) (\<lambda>prediction.
     seq_call (seq_call (level_encoder_inverse_transform A prediction)
                 (\<lambda>levels. returns (first levels))) (\<lambda>level.
     returns (Inr [(''predicted_level'', level)]))))))))"

definition post_predict_objects :: "'s objects \<Rightarrow> payload \<Rightarrow> 's \<Rightarrow> response \<times> 's" where
  "post_predict_objects A data s =
     (case try_block_objects A data s of
        (Inr result, s') \<Rightarrow> (\<lparr>status = 200, body = result\<rparr>, s')
      | (Inl e, s') \<Rightarrow> (\<lparr>status = 400, body = [(''detail'', str e)]\<rparr>, s'))"

fun serve_objects :: "'s objects \<Rightarrow> payload list \<Rightarrow> 's \<Rightarrow> response list \<times> 's" where
  "serve_objects A [] s = ([], s)"
| "serve_objects A (d # ds) s =
     (let (r, s') = post_predict_objects A d s;
          (rs, s'') = serve_objects A ds s'
      in (r # rs, s''))"

text \<open>
  The objects whose hidden state is the fitted artifacts themselves: the calls read the
  classifier and the vocabularies and change nothing. Over them the handler is
  \<open>post_predict\<close>.
\<close>

definition loaded :: "globals objects" where
  "loaded =
     \<lparr>model_predict = (\<lambda>X g. (model g X, g)),
      topic_encoder_transform = (\<lambda>ys g. (transform (topic_encoder g) ys, g)),
      level_encoder_inverse_transform = (\<lambda>ys g. (inverse_transform (level_encoder g) ys, g))\<rparr>"


section \<open>Notions used to state the properties\<close>

text \<open>
  The response \<^verbatim>\<open>{"detail": msg}\<close> with status 400.
\<close>

definition bad_request :: "string \<Rightarrow> response" where
  "bad_request msg = \<lparr>status = 400, body = [(''detail'', msg)]\<rparr>"

text \<open>
  The last three statements of the \<^verbatim>\<open>try\<close> block, as a function of the batch \<open>X\<close>:
  \<^verbatim>\<open>model.predict(X)\<close>, \<^verbatim>\<open>level_encoder.inverse_transform(prediction)[0]\<close> and the
  returned dict.
\<close>

definition decode :: "globals \<Rightarrow> pyval list list \<Rightarrow> exn + (string \<times> string) list" where
  "decode g X =
     seq (model g X) (\<lambda>prediction.
     seq (seq (inverse_transform (level_encoder g) prediction) first) (\<lambda>level.
     Inr [(''predicted_level'', level)]))"

text \<open>
  The four keys the handler reads, in the order in which it reads them.
  \<open>reads_before data k\<close> holds when every statement of the handler that comes before the
  read of \<open>data[k]\<close> succeeds on \<open>data\<close>, so that the read of \<open>k\<close> is reached.
\<close>

definition required_keys :: "string list" where
  "required_keys = [''topic'', ''accuracy_percent'', ''avg_time_seconds'', ''attempts'']"

definition converts :: "(pyval \<Rightarrow> exn + 'a) \<Rightarrow> pyval option \<Rightarrow> bool" where
  "converts f v = (case v of None \<Rightarrow> False | Some x \<Rightarrow> \<not> isl (f x))"

definition reads_before :: "payload \<Rightarrow> string \<Rightarrow> bool" where
  "reads_before data k =
     (if k = ''topic'' then True
      else data ''topic'' \<noteq> None \<and>
        (if k = ''accuracy_percent'' then True
         else converts py_float (data ''accuracy_percent'') \<and>
           (if k = ''avg_time_seconds'' then True
            else converts py_float (data ''avg_time_seconds''))))"

text \<open>
  \<open>mentions text k\<close>: the string \<open>k\<close> occurs in \<open>text\<close>.
\<close>

definition mentions :: "string \<Rightarrow> string \<Rightarrow> bool" where
  "mentions text k = list_ex (\<lambda>i. take (length k) (drop i text) = k) [0..<Suc (length text)]"

text \<open>
  \<open>loads f\<close>: the file \<open>f\<close> exists and unpickles.
\<close>

fun loads :: "'a pkl \<Rightarrow> bool" where
  "loads (Pickled obj) = True"
| "loads f = False"




section \<open>Example artifacts and payloads\<close>

text \<open>
  Modelled from the spec: the three trained artifacts are not part of the repository. The
  examples below stand for them where a property is evaluated on a concrete request: a
  classifier that, like the estimators of scikit-learn, refuses a batch holding NaN or an
  infinity and otherwise answers one class id per row (from the accuracy alone), a topic
  vocabulary and a level vocabulary.
\<close>

fun finite_number :: "pyval \<Rightarrow> bool" where
  "finite_number (PyInt i) = True"
| "finite_number (PyFloat (Finite x)) = True"
| "finite_number (PyFloat NegZero) = True"
| "finite_number v = False"

fun demo_class :: "pyval list \<Rightarrow> int" where
  "demo_class (PyFloat (Finite accuracy) # rest) =
     (if accuracy < 50 then 1 else if accuracy < 90 then 2 else 0)"
| "demo_class row = 1"

definition demo_model :: classifier where
  "demo_model X =
     (if list_all (list_all finite_number) X then Inr (map demo_class X)
      else Inl (ValueError ''Input X contains NaN or infinity.''))"

definition demo_globals :: globals where
  "demo_globals =
     \<lparr>model = demo_model,
      topic_encoder = [''algebra'', ''geometry''],
      level_encoder = [''advanced'', ''beginner'', ''intermediate'']\<rparr>"

text \<open>
  The request of the spec's first scenario, and variations of it.
\<close>

definition algebra_payload :: payload where
  "algebra_payload =
     map_of [(''topic'', PyStr ''algebra''), (''accuracy_percent'', PyInt 85),
             (''avg_time_seconds'', PyFloat (Finite (25 / 2))), (''attempts'', PyInt 2)]"

definition not_a_number_payload :: payload where
  "not_a_number_payload =
     map_of [(''topic'', PyStr ''algebra''), (''accuracy_percent'', PyStr ''not-a-number''),
             (''avg_time_seconds'', PyFloat (Finite (25 / 2))), (''attempts'', PyInt 2)]"

definition inf_payload :: payload where
  "inf_payload =
     map_of [(''topic'', PyStr ''algebra''), (''accuracy_percent'', PyStr ''inf''),
             (''avg_time_seconds'', PyFloat (Finite (25 / 2))), (''attempts'', PyInt 2)]"

definition abc_payload :: payload where
  "abc_payload =
     map_of [(''topic'', PyStr ''algebra''), (''accuracy_percent'', PyStr ''abc''),
             (''avg_time_seconds'', PyFloat (Finite (25 / 2)))]"

definition no_attempts_payload :: payload where
  "no_attempts_payload =
     map_of [(''topic'', PyStr ''algebra''), (''accuracy_percent'', PyInt 85),
             (''avg_time_seconds'', PyFloat (Finite (25 / 2)))]"

definition quantum_payload :: payload where
  "quantum_payload =
     map_of [(''topic'', PyStr ''quantum_foo''), (''accuracy_percent'', PyInt 85),
             (''avg_time_seconds'', PyFloat (Finite (25 / 2))), (''attempts'', PyInt 2)]"

definition string_payload :: payload where
  "string_payload =
     map_of [(''topic'', PyStr ''algebra''), (''accuracy_percent'', PyStr ''85''),
             (''avg_time_seconds'', PyStr ''12.5''), (''attempts'', PyStr ''2'')]"


text \<open>
  Modelled from the spec: a working directory that holds the three example artifacts, and
  the same directory without \<^verbatim>\<open>topic_encoder.pkl\<close>.
\<close>

definition demo_disk :: disk where
  "demo_disk =
     \<lparr>coa_model_pkl = Pickled demo_model,
      topic_encoder_pkl = Pickled [''algebra'', ''geometry''],
      level_encoder_pkl = Pickled [''advanced'', ''beginner'', ''intermediate'']\<rparr>"

definition broken_disk :: disk where
  "broken_disk = demo_disk\<lparr>topic_encoder_pkl := Missing\<rparr>"

text \<open>
  The numbers of the first scenario as strings, the time being the string \<^verbatim>\<open>"Infinity"\<close>.
\<close>

definition infinity_payload :: payload where
  "infinity_payload =
     map_of [(''topic'', PyStr ''algebra''), (''accuracy_percent'', PyStr ''85''),
             (''avg_time_seconds'', PyStr ''Infinity''), (''attempts'', PyStr ''2'')]"

text \<open>
  Modelled from the spec: objects that are not read-only. The classifier counts its calls
  and answers with the count modulo 3.
\<close>

definition counting :: "nat objects" where
  "counting =
     \<lparr>model_predict = (\<lambda>X n. (Inr (map (\<lambda>row. int (n mod 3)) X), Suc n)),
      topic_encoder_transform = (\<lambda>ys n. (transform (topic_encoder demo_globals) ys, n)),
      level_encoder_inverse_transform =
        (\<lambda>ys n. (inverse_transform (level_encoder demo_globals) ys, n))\<rparr>"


section \<open>Auxiliary facts\<close>

lemma seq_Inl [simp]: "seq (Inl e) f = Inl e"
  by (simp add: seq_def)

lemma seq_Inr [simp]: "seq (Inr x) f = f x"
  by (simp add: seq_def)

lemma seq_eq_Inr: "seq m f = Inr y \<longleftrightarrow> (\<exists>x. m = Inr x \<and> f x = Inr y)"
  by (cases m) simp_all

lemma not_isl_Inr: "\<not> isl x \<longleftrightarrow> (\<exists>y. x = Inr y)"
  by (cases x) simp_all

lemma getitem_Some [simp]: "data k = Some v \<Longrightarrow> getitem data k = Inr v"
  by (simp add: getitem_def)

lemma getitem_None [simp]: "data k = None \<Longrightarrow> getitem data k = Inl (KeyError k)"
  by (simp add: getitem_def)

lemma first_Cons [simp]: "first (x # xs) = Inr x"
  by (simp add: first_def)

lemma index_of_None: "index_of cs s = None \<longleftrightarrow> s \<notin> set cs"
  by (induction cs) auto

lemma index_of_range: "index_of cs s = Some k \<Longrightarrow> 0 \<le> k \<and> k < int (length cs)"
  by (induction cs arbitrary: k) (auto split: if_splits)

lemma transform_known: "index_of cs t = Some k \<Longrightarrow> transform cs [PyStr t] = Inr [k]"
  by simp

lemma transform_unknown: "t \<notin> set cs \<Longrightarrow> transform cs [PyStr t] = Inl unseen_labels"
  using index_of_None [of cs t] by simp

lemma inverse_transform_single:
  "0 \<le> c \<Longrightarrow> c < int (length cs) \<Longrightarrow> inverse_transform cs [c] = Inr [cs ! nat c]"
  by simp

lemma try_block_decode: "try_block g data =
     seq (getitem data ''topic'') (\<lambda>topic.
     seq (seq (getitem data ''accuracy_percent'') py_float) (\<lambda>accuracy.
     seq (seq (getitem data ''avg_time_seconds'') py_float) (\<lambda>avg_time.
     seq (seq (getitem data ''attempts'') py_int) (\<lambda>attempts.
     seq (seq (transform (topic_encoder g) [topic]) first) (\<lambda>topic_encoded.
     decode g [[PyFloat accuracy, PyFloat avg_time, PyInt attempts, PyInt topic_encoded]])))))"
  by (simp add: try_block_def decode_def)

lemma decode_result: "decode g X = Inr r \<Longrightarrow> \<exists>level. r = [(''predicted_level'', level)]"
  by (auto simp: decode_def seq_eq_Inr)

lemma try_block_result: "try_block g data = Inr r \<Longrightarrow> \<exists>level. r = [(''predicted_level'', level)]"
  by (auto simp: try_block_decode seq_eq_Inr dest: decode_result)

lemma try_block_coerced:
  assumes "data ''topic'' = Some tv"
    and "data ''accuracy_percent'' = Some v1" and "py_float v1 = Inr a"
    and "data ''avg_time_seconds'' = Some v2" and "py_float v2 = Inr b"
    and "data ''attempts'' = Some v3" and "py_int v3 = Inr n"
  shows "try_block g data =
           seq (seq (transform (topic_encoder g) [tv]) first) (\<lambda>k.
             decode g [[PyFloat a, PyFloat b, PyInt n, PyInt k]])"
  using assms by (simp add: try_block_decode)

lemma try_block_success:
  assumes "try_block g data = Inr r"
  shows "\<exists>tv v1 a v2 b v3 n k.
           data ''topic'' = Some tv \<and>
           data ''accuracy_percent'' = Some v1 \<and> py_float v1 = Inr a \<and>
           data ''avg_time_seconds'' = Some v2 \<and> py_float v2 = Inr b \<and>
           data ''attempts'' = Some v3 \<and> py_int v3 = Inr n \<and>
           seq (transform (topic_encoder g) [tv]) first = Inr k"
  using assms
  by (auto simp: try_block_decode seq_eq_Inr getitem_def split: option.splits)

lemma post_predict_Inr: "try_block g data = Inr r \<Longrightarrow> post_predict g data = \<lparr>status = 200, body = r\<rparr>"
  by (simp add: post_predict_def predict_level_def)

lemma post_predict_Inl: "try_block g data = Inl e \<Longrightarrow> post_predict g data = bad_request (str e)"
  by (simp add: post_predict_def predict_level_def bad_request_def)

lemma status_bad_request [simp]: "status (bad_request msg) = 400"
  by (simp add: bad_request_def)

lemma no_success_400:
  assumes "\<And>r. try_block g data \<noteq> Inr r"
  shows "status (post_predict g data) = 400"
proof (cases "try_block g data")
  case (Inl e)
  then show ?thesis
    by (simp add: post_predict_Inl)
next
  case (Inr r)
  with assms show ?thesis
    by blast
qed

lemma repr_required_keys:
  "repr ''topic'' = [CHR 0x27] @ ''topic'' @ [CHR 0x27]"
  "repr ''accuracy_percent'' = [CHR 0x27] @ ''accuracy_percent'' @ [CHR 0x27]"
  "repr ''avg_time_seconds'' = [CHR 0x27] @ ''avg_time_seconds'' @ [CHR 0x27]"
  "repr ''attempts'' = [CHR 0x27] @ ''attempts'' @ [CHR 0x27]"
  by code_simp+

lemma missing_key_status:
  assumes "k \<in> set required_keys" and "data k = None"
  shows "status (post_predict g data) = 400"
proof (rule no_success_400)
  fix r
  show "try_block g data \<noteq> Inr r"
  proof
    assume "try_block g data = Inr r"
    from try_block_success [OF this] assms show False
      by (auto simp: required_keys_def)
  qed
qed

lemma missing_key_detail:
  assumes "k \<in> set required_keys" and "data k = None" and "reads_before data k"
  shows "try_block g data = Inl (KeyError k)"
  using assms
  by (auto simp: required_keys_def reads_before_def converts_def try_block_def getitem_def
                 not_isl_Inr
           split: option.splits if_splits)

lemma serve_map: "serve ds g = (map (post_predict g) ds, g)"
  by (induction ds) (simp_all add: handle_request_def)

lemma joblib_load_Inr: "joblib_load name f = Inr obj \<longleftrightarrow> f = Pickled obj"
  by (cases f) (simp_all add: joblib_load_def)

lemma joblib_load_loads: "loads f \<longleftrightarrow> (\<exists>obj. joblib_load name f = Inr obj)"
  by (cases f) (simp_all add: joblib_load_def)

lemma load_artifacts_fails:
  "(\<exists>e. load_artifacts d = Inl e) \<longleftrightarrow>
     \<not> loads (coa_model_pkl d) \<or> \<not> loads (topic_encoder_pkl d) \<or> \<not> loads (level_encoder_pkl d)"
  by (cases "coa_model_pkl d"; cases "topic_encoder_pkl d"; cases "level_encoder_pkl d")
     (simp_all add: load_artifacts_def joblib_load_def)

lemma post_predict_success:
  assumes "data ''topic'' = Some (PyStr t)"
    and "index_of (topic_encoder g) t = Some k"
    and "data ''accuracy_percent'' = Some v1" and "py_float v1 = Inr a"
    and "data ''avg_time_seconds'' = Some v2" and "py_float v2 = Inr b"
    and "data ''attempts'' = Some v3" and "py_int v3 = Inr n"
    and "model g [[PyFloat a, PyFloat b, PyInt n, PyInt k]] = Inr [c]"
    and "0 \<le> c" and "c < int (length (level_encoder g))"
  shows "post_predict g data
           = \<lparr>status = 200, body = [(''predicted_level'', level_encoder g ! nat c)]\<rparr>"
proof -
  have "try_block g data = decode g [[PyFloat a, PyFloat b, PyInt n, PyInt k]]"
    using try_block_coerced [OF assms(1) assms(3-8)] transform_known [OF assms(2)]
    by (simp del: transform.simps)
  also have "\<dots> = Inr [(''predicted_level'', level_encoder g ! nat c)]"
    using assms(9) inverse_transform_single [OF assms(10,11)]
    by (simp add: decode_def del: inverse_transform.simps)
  finally show ?thesis
    by (rule post_predict_Inr)
qed

lemma post_predict_conversions:
  assumes "data ''topic'' = Some topic"
    and "data ''accuracy_percent'' = Some v1"
    and "data ''avg_time_seconds'' = Some v2"
    and "data ''attempts'' = Some v3"
  shows "post_predict g data =
          (case py_float v1 of Inl e \<Rightarrow> bad_request (str e) | Inr a \<Rightarrow>
           case py_float v2 of Inl e \<Rightarrow> bad_request (str e) | Inr b \<Rightarrow>
           case py_int v3 of Inl e \<Rightarrow> bad_request (str e) | Inr n \<Rightarrow>
           post_predict g (data(''accuracy_percent'' \<mapsto> PyFloat a,
                                ''avg_time_seconds'' \<mapsto> PyFloat b,
                                ''attempts'' \<mapsto> PyInt n)))"
  using assms
  by (simp add: post_predict_def predict_level_def try_block_def getitem_def bad_request_def
           split: sum.splits)







lemma try_block_objects_loaded: "try_block_objects loaded data g = (try_block g data, g)"
  by (simp add: try_block_objects_def try_block_def loaded_def seq_call_def returns_def
                seq_def Let_def
           split: sum.splits)

lemma post_predict_objects_loaded:
  "post_predict_objects loaded data g = (post_predict g data, g)"
  by (simp add: post_predict_objects_def try_block_objects_loaded post_predict_def
                predict_level_def
           split: sum.splits)

section \<open>The properties\<close>

subsection \<open>Valid payloads\<close>

text \<open>
  Claim C1, as the spec states it, says that every payload with the four keys, whose
  accuracy and time coerce to floats, whose attempts coerce to an integer and whose topic is
  in the topic vocabulary, is answered with status 200. The string \<^verbatim>\<open>"inf"\<close> coerces to a
  float, the infinity, and the example classifier refuses it: the request below meets every
  condition of the claim and is answered with status 400.
\<close>

theorem valid_payload_counterexample:
  "inf_payload ''topic'' = Some (PyStr ''algebra'')
   \<and> ''algebra'' \<in> set (topic_encoder demo_globals)
   \<and> inf_payload ''accuracy_percent'' = Some (PyStr ''inf'')
   \<and> py_float (PyStr ''inf'') = Inr PosInf
   \<and> inf_payload ''avg_time_seconds'' = Some (PyFloat (Finite (25 / 2)))
   \<and> py_float (PyFloat (Finite (25 / 2))) = Inr (Finite (25 / 2))
   \<and> inf_payload ''attempts'' = Some (PyInt 2)
   \<and> py_int (PyInt 2) = Inr 2
   \<and> post_predict demo_globals inf_payload
       = \<lparr>status = 400, body = [(''detail'', ''Input X contains NaN or infinity.'')]\<rparr>"
  by code_simp

text \<open>
  Claim C1, amended: when moreover the classifier answers the assembled row with one class
  id \<open>c\<close> that lies in the level vocabulary, the response has status 200 and its body is
  \<^verbatim>\<open>{"predicted_level": s}\<close> where \<open>s\<close>, the label of \<open>c\<close>, is one of the labels of the level
  vocabulary.
\<close>

theorem valid_payload_is_200:
  assumes "data ''topic'' = Some (PyStr t)"
    and "index_of (topic_encoder g) t = Some k"
    and "data ''accuracy_percent'' = Some v1" and "py_float v1 = Inr a"
    and "data ''avg_time_seconds'' = Some v2" and "py_float v2 = Inr b"
    and "data ''attempts'' = Some v3" and "py_int v3 = Inr n"
    and "model g [[PyFloat a, PyFloat b, PyInt n, PyInt k]] = Inr [c]"
    and "0 \<le> c" and "c < int (length (level_encoder g))"
  shows "level_encoder g ! nat c \<in> set (level_encoder g)
       \<and> post_predict g data
           = \<lparr>status = 200, body = [(''predicted_level'', level_encoder g ! nat c)]\<rparr>"
proof -
  have "try_block g data = decode g [[PyFloat a, PyFloat b, PyInt n, PyInt k]]"
    using try_block_coerced [OF assms(1) assms(3-8)] transform_known [OF assms(2)]
    by (simp del: transform.simps)
  also have "\<dots> = Inr [(''predicted_level'', level_encoder g ! nat c)]"
    using assms(9) inverse_transform_single [OF assms(10,11)]
    by (simp add: decode_def del: inverse_transform.simps)
  finally have "post_predict g data
      = \<lparr>status = 200, body = [(''predicted_level'', level_encoder g ! nat c)]\<rparr>"
    by (rule post_predict_Inr)
  moreover have "level_encoder g ! nat c \<in> set (level_encoder g)"
    using assms(10,11) by simp
  ultimately show ?thesis
    by simp
qed

theorem valid_payload_is_200_witness:
  "algebra_payload ''topic'' = Some (PyStr ''algebra'')
   \<and> index_of (topic_encoder demo_globals) ''algebra'' = Some 0
   \<and> algebra_payload ''accuracy_percent'' = Some (PyInt 85)
   \<and> py_float (PyInt 85) = Inr (Finite 85)
   \<and> algebra_payload ''avg_time_seconds'' = Some (PyFloat (Finite (25 / 2)))
   \<and> py_float (PyFloat (Finite (25 / 2))) = Inr (Finite (25 / 2))
   \<and> algebra_payload ''attempts'' = Some (PyInt 2)
   \<and> py_int (PyInt 2) = Inr 2
   \<and> model demo_globals [[PyFloat (Finite 85), PyFloat (Finite (25 / 2)), PyInt 2, PyInt 0]]
       = Inr [2]
   \<and> level_encoder demo_globals ! nat 2 = ''intermediate''
   \<and> level_encoder demo_globals ! nat 2 \<in> set (level_encoder demo_globals)
   \<and> post_predict demo_globals algebra_payload
       = \<lparr>status = 200, body = [(''predicted_level'', level_encoder demo_globals ! nat 2)]\<rparr>"
proof -
  have h1: "algebra_payload ''topic'' = Some (PyStr ''algebra'')"
    by code_simp
  have h2: "index_of (topic_encoder demo_globals) ''algebra'' = Some 0"
    by code_simp
  have h3: "algebra_payload ''accuracy_percent'' = Some (PyInt 85)"
    by code_simp
  have h4: "py_float (PyInt 85) = Inr (Finite 85)"
    by code_simp
  have h5: "algebra_payload ''avg_time_seconds'' = Some (PyFloat (Finite (25 / 2)))"
    by code_simp
  have h6: "py_float (PyFloat (Finite (25 / 2))) = Inr (Finite (25 / 2))"
    by simp
  have h7: "algebra_payload ''attempts'' = Some (PyInt 2)"
    by code_simp
  have h8: "py_int (PyInt 2) = Inr 2"
    by simp
  have h9: "model demo_globals
              [[PyFloat (Finite 85), PyFloat (Finite (25 / 2)), PyInt 2, PyInt 0]] = Inr [2]"
    by code_simp
  have h10: "(0::int) \<le> 2"
    by simp
  have h11: "(2::int) < int (length (level_encoder demo_globals))"
    by code_simp
  have e: "level_encoder demo_globals ! nat 2 = ''intermediate''"
    by code_simp
  note c = valid_payload_is_200 [OF h1 h2 h3 h4 h5 h6 h7 h8 h9 h10 h11]
  show ?thesis
    by (intro conjI) (rule h1 h2 h3 h4 h5 h6 h7 h8 h9 e c [THEN conjunct1] c [THEN conjunct2])+
qed

subsection \<open>The blanket exception handler\<close>

text \<open>
  Claim C2: every call yields either status 200 with the body
  \<^verbatim>\<open>{"predicted_level": level}\<close> that the \<^verbatim>\<open>try\<close> block returned, or, whatever exception \<open>e\<close>
  the \<^verbatim>\<open>try\<close> block raised and wherever it raised it, status 400 with the body
  \<^verbatim>\<open>{"detail": str(e)}\<close>. No other status is produced.
\<close>

theorem every_call_is_200_or_400:
  "(\<exists>level. try_block g data = Inr [(''predicted_level'', level)]
       \<and> post_predict g data = \<lparr>status = 200, body = [(''predicted_level'', level)]\<rparr>)
   \<or> (\<exists>e. try_block g data = Inl e
       \<and> post_predict g data = \<lparr>status = 400, body = [(''detail'', str e)]\<rparr>)"
proof (cases "try_block g data")
  case (Inl e)
  then show ?thesis
    by (simp add: post_predict_Inl bad_request_def)
next
  case (Inr r)
  then obtain level where "r = [(''predicted_level'', level)]"
    using try_block_result by blast
  with Inr show ?thesis
    by (simp add: post_predict_Inr)
qed

theorem every_call_is_200_or_400_witness:
  "post_predict demo_globals algebra_payload
     = \<lparr>status = 200, body = [(''predicted_level'', ''intermediate'')]\<rparr>
   \<and> post_predict demo_globals not_a_number_payload
     = \<lparr>status = 400,
        body = [(''detail'', ''could not convert string to float: ''
                             @ [CHR 0x27] @ ''not-a-number'' @ [CHR 0x27])]\<rparr>"
proof
  have "try_block demo_globals algebra_payload = Inr [(''predicted_level'', ''intermediate'')]"
    by code_simp
  with every_call_is_200_or_400 [of demo_globals algebra_payload]
  show "post_predict demo_globals algebra_payload
          = \<lparr>status = 200, body = [(''predicted_level'', ''intermediate'')]\<rparr>"
    by auto
next
  have "try_block demo_globals not_a_number_payload
          = Inl (ValueError (''could not convert string to float: ''
                             @ [CHR 0x27] @ ''not-a-number'' @ [CHR 0x27]))"
    by code_simp
  with every_call_is_200_or_400 [of demo_globals not_a_number_payload]
  show "post_predict demo_globals not_a_number_payload
          = \<lparr>status = 400,
             body = [(''detail'', ''could not convert string to float: ''
                                  @ [CHR 0x27] @ ''not-a-number'' @ [CHR 0x27])]\<rparr>"
    by auto
qed

subsection \<open>Missing keys\<close>

text \<open>
  Claim C3, as the spec states it, says that the detail of the 400 response mentions the
  missing key. The handler stops at the first statement that raises: the payload below has
  no \<^verbatim>\<open>attempts\<close>, but its \<^verbatim>\<open>accuracy_percent\<close> is the string \<^verbatim>\<open>"abc"\<close>, and the detail is the
  message of \<^verbatim>\<open>float("abc")\<close>, in which \<^verbatim>\<open>attempts\<close> does not occur.
\<close>

theorem missing_key_counterexample:
  "abc_payload ''attempts'' = None
   \<and> post_predict demo_globals abc_payload
       = \<lparr>status = 400,
          body = [(''detail'',
                   ''could not convert string to float: '' @ [CHR 0x27] @ ''abc'' @ [CHR 0x27])]\<rparr>
   \<and> \<not> mentions (''could not convert string to float: '' @ [CHR 0x27] @ ''abc'' @ [CHR 0x27])
         ''attempts''"
  by code_simp

text \<open>
  Claim C3, amended: a payload that misses one of the four required keys is answered with
  status 400; and when the statements before the read of the missing key succeed (the keys
  read earlier are present and their values convert), the detail is the missing key in
  single quotes, the text of the \<^verbatim>\<open>KeyError\<close>.
\<close>

theorem missing_key_is_400:
  assumes "k \<in> set required_keys" and "data k = None"
  shows "status (post_predict g data) = 400
       \<and> (reads_before data k \<longrightarrow>
            post_predict g data = bad_request ([CHR 0x27] @ k @ [CHR 0x27]))"
proof (intro conjI impI)
  show "status (post_predict g data) = 400"
    using assms by (rule missing_key_status)
next
  assume "reads_before data k"
  with assms have "try_block g data = Inl (KeyError k)"
    by (rule missing_key_detail)
  then have "post_predict g data = bad_request (str (KeyError k))"
    by (simp add: post_predict_Inl bad_request_def)
  moreover have "repr k = [CHR 0x27] @ k @ [CHR 0x27]"
    using assms(1) by (auto simp: required_keys_def repr_required_keys)
  ultimately show "post_predict g data = bad_request ([CHR 0x27] @ k @ [CHR 0x27])"
    by simp
qed

theorem missing_key_is_400_witness:
  "''attempts'' \<in> set required_keys
   \<and> no_attempts_payload ''attempts'' = None
   \<and> reads_before no_attempts_payload ''attempts''
   \<and> status (post_predict demo_globals no_attempts_payload) = 400
   \<and> post_predict demo_globals no_attempts_payload
       = bad_request ([CHR 0x27] @ ''attempts'' @ [CHR 0x27])
   \<and> mentions ([CHR 0x27] @ ''attempts'' @ [CHR 0x27]) ''attempts''"
proof -
  have h1: "''attempts'' \<in> set required_keys"
    by code_simp
  have h2: "no_attempts_payload ''attempts'' = None"
    by code_simp
  have h3: "reads_before no_attempts_payload ''attempts''"
    by code_simp
  have m: "mentions ([CHR 0x27] @ ''attempts'' @ [CHR 0x27]) ''attempts''"
    by code_simp
  note c = missing_key_is_400 [where k = "''attempts''" and data = no_attempts_payload and g = demo_globals, OF h1 h2]
  show ?thesis
    by (intro conjI) (rule h1 h2 h3 m c [THEN conjunct1] c [THEN conjunct2, THEN mp, OF h3])+
qed

subsection \<open>Values that do not convert\<close>

text \<open>
  Claim C4: when \<^verbatim>\<open>accuracy_percent\<close> or \<^verbatim>\<open>avg_time_seconds\<close> is present and \<^verbatim>\<open>float\<close> raises
  on it, or \<^verbatim>\<open>attempts\<close> is present and \<^verbatim>\<open>int\<close> raises on it, the response has status 400.
\<close>

theorem unparsable_number_is_400:
  assumes "(\<exists>v. data ''accuracy_percent'' = Some v \<and> isl (py_float v))
         \<or> (\<exists>v. data ''avg_time_seconds'' = Some v \<and> isl (py_float v))
         \<or> (\<exists>v. data ''attempts'' = Some v \<and> isl (py_int v))"
  shows "status (post_predict g data) = 400"
proof (rule no_success_400)
  fix r
  show "try_block g data \<noteq> Inr r"
  proof
    assume "try_block g data = Inr r"
    from try_block_success [OF this] assms show False
      by auto
  qed
qed

theorem unparsable_number_is_400_witness:
  "not_a_number_payload ''accuracy_percent'' = Some (PyStr ''not-a-number'')
   \<and> isl (py_float (PyStr ''not-a-number''))
   \<and> status (post_predict demo_globals not_a_number_payload) = 400"
proof -
  have h1: "not_a_number_payload ''accuracy_percent'' = Some (PyStr ''not-a-number'')"
    by code_simp
  have h2: "isl (py_float (PyStr ''not-a-number''))"
    by code_simp
  from h1 h2
  have "(\<exists>v. not_a_number_payload ''accuracy_percent'' = Some v \<and> isl (py_float v))
      \<or> (\<exists>v. not_a_number_payload ''avg_time_seconds'' = Some v \<and> isl (py_float v))
      \<or> (\<exists>v. not_a_number_payload ''attempts'' = Some v \<and> isl (py_int v))"
    by blast
  then have "status (post_predict demo_globals not_a_number_payload) = 400"
    by (rule unparsable_number_is_400)
  with h1 h2 show ?thesis
    by blast
qed

subsection \<open>Unknown topics\<close>

text \<open>
  Claim C5: when the topic is a string that is not in the vocabulary of the topic encoder,
  the response has status 400.
\<close>

theorem unknown_topic_is_400:
  assumes "data ''topic'' = Some (PyStr t)" and "t \<notin> set (topic_encoder g)"
  shows "status (post_predict g data) = 400"
proof (rule no_success_400)
  fix r
  show "try_block g data \<noteq> Inr r"
  proof
    assume "try_block g data = Inr r"
    from try_block_success [OF this] assms(1)
    obtain k where "seq (transform (topic_encoder g) [PyStr t]) first = Inr k"
      by auto
    with transform_unknown [OF assms(2)] show False
      by (simp del: transform.simps)
  qed
qed

theorem unknown_topic_is_400_witness:
  "quantum_payload ''topic'' = Some (PyStr ''quantum_foo'')
   \<and> ''quantum_foo'' \<notin> set (topic_encoder demo_globals)
   \<and> status (post_predict demo_globals quantum_payload) = 400"
proof -
  have h1: "quantum_payload ''topic'' = Some (PyStr ''quantum_foo'')"
    by code_simp
  have h2: "''quantum_foo'' \<notin> set (topic_encoder demo_globals)"
    by code_simp
  note c = unknown_topic_is_400 [where data = quantum_payload and t = "''quantum_foo''" and g = demo_globals, OF h1 h2]
  show ?thesis
    by (intro conjI) (rule h1 h2 c)+
qed

subsection \<open>The feature vector\<close>

text \<open>
  Claim C6: for a payload whose four values are present and convert and whose topic has the
  code \<open>k\<close>, the handler calls the classifier on the batch of the single row
  \<open>[accuracy, avg_time, attempts, k]\<close>, in this order, decodes the prediction through the
  level encoder, takes its first label and returns it under the key \<^verbatim>\<open>predicted_level\<close>. When
  the classifier answers with one class id of the level vocabulary, the result is the label
  of that class id.
\<close>

theorem features_in_fixed_order:
  assumes "data ''topic'' = Some (PyStr t)"
    and "index_of (topic_encoder g) t = Some k"
    and "data ''accuracy_percent'' = Some v1" and "py_float v1 = Inr a"
    and "data ''avg_time_seconds'' = Some v2" and "py_float v2 = Inr b"
    and "data ''attempts'' = Some v3" and "py_int v3 = Inr n"
  shows "try_block g data =
           seq (model g [[PyFloat a, PyFloat b, PyInt n, PyInt k]]) (\<lambda>prediction.
           seq (seq (inverse_transform (level_encoder g) prediction) first) (\<lambda>level.
           Inr [(''predicted_level'', level)]))
       \<and> (\<forall>c. model g [[PyFloat a, PyFloat b, PyInt n, PyInt k]] = Inr [c]
              \<longrightarrow> 0 \<le> c \<longrightarrow> c < int (length (level_encoder g))
              \<longrightarrow> try_block g data = Inr [(''predicted_level'', level_encoder g ! nat c)])"
proof -
  have eq: "try_block g data = decode g [[PyFloat a, PyFloat b, PyInt n, PyInt k]]"
    using try_block_coerced [OF assms(1) assms(3-8)] transform_known [OF assms(2)]
    by (simp del: transform.simps)
  have "try_block g data = Inr [(''predicted_level'', level_encoder g ! nat c)]"
    if "model g [[PyFloat a, PyFloat b, PyInt n, PyInt k]] = Inr [c]"
      and "0 \<le> c" and "c < int (length (level_encoder g))" for c
    using that inverse_transform_single [of c "level_encoder g"]
    by (simp add: eq decode_def del: inverse_transform.simps)
  with eq show ?thesis
    by (simp add: decode_def)
qed

theorem features_in_fixed_order_witness:
  "algebra_payload ''topic'' = Some (PyStr ''algebra'')
   \<and> index_of (topic_encoder demo_globals) ''algebra'' = Some 0
   \<and> algebra_payload ''accuracy_percent'' = Some (PyInt 85)
   \<and> py_float (PyInt 85) = Inr (Finite 85)
   \<and> algebra_payload ''avg_time_seconds'' = Some (PyFloat (Finite (25 / 2)))
   \<and> py_float (PyFloat (Finite (25 / 2))) = Inr (Finite (25 / 2))
   \<and> algebra_payload ''attempts'' = Some (PyInt 2)
   \<and> py_int (PyInt 2) = Inr 2
   \<and> try_block demo_globals algebra_payload =
       seq (model demo_globals
              [[PyFloat (Finite 85), PyFloat (Finite (25 / 2)), PyInt 2, PyInt 0]])
         (\<lambda>prediction.
       seq (seq (inverse_transform (level_encoder demo_globals) prediction) first) (\<lambda>level.
       Inr [(''predicted_level'', level)]))
   \<and> model demo_globals [[PyFloat (Finite 85), PyFloat (Finite (25 / 2)), PyInt 2, PyInt 0]]
       = Inr [2]
   \<and> try_block demo_globals algebra_payload
       = Inr [(''predicted_level'', level_encoder demo_globals ! nat 2)]
   \<and> level_encoder demo_globals ! nat 2 = ''intermediate''"
proof -
  have h1: "algebra_payload ''topic'' = Some (PyStr ''algebra'')"
    by code_simp
  have h2: "index_of (topic_encoder demo_globals) ''algebra'' = Some 0"
    by code_simp
  have h3: "algebra_payload ''accuracy_percent'' = Some (PyInt 85)"
    by code_simp
  have h4: "py_float (PyInt 85) = Inr (Finite 85)"
    by code_simp
  have h5: "algebra_payload ''avg_time_seconds'' = Some (PyFloat (Finite (25 / 2)))"
    by code_simp
  have h6: "py_float (PyFloat (Finite (25 / 2))) = Inr (Finite (25 / 2))"
    by simp
  have h7: "algebra_payload ''attempts'' = Some (PyInt 2)"
    by code_simp
  have h8: "py_int (PyInt 2) = Inr 2"
    by simp
  have h9: "model demo_globals
              [[PyFloat (Finite 85), PyFloat (Finite (25 / 2)), PyInt 2, PyInt 0]] = Inr [2]"
    by code_simp
  have h10: "(0::int) \<le> 2"
    by simp
  have h11: "(2::int) < int (length (level_encoder demo_globals))"
    by code_simp
  have e: "level_encoder demo_globals ! nat 2 = ''intermediate''"
    by code_simp
  note c = features_in_fixed_order [OF h1 h2 h3 h4 h5 h6 h7 h8]
  note d = c [THEN conjunct2, rule_format, OF h9 h10 h11]
  show ?thesis
    by (intro conjI) (rule h1 h2 h3 h4 h5 h6 h7 h8 h9 e c [THEN conjunct1] d)+
qed

subsection \<open>Determinism\<close>



text \<open>
  The hypothesis carries the weight that the spec puts on the artifacts: the handler does
  nothing to shield a request from what an earlier call left in the objects. With the
  counting classifier the same payload, sent twice, gets two different levels.
\<close>

lemma changing_artifact_differs:
  "fst (serve_objects counting [algebra_payload, algebra_payload] 0) ! 0
     = \<lparr>status = 200, body = [(''predicted_level'', ''advanced'')]\<rparr>
   \<and> fst (serve_objects counting [algebra_payload, algebra_payload] 0) ! 1
     = \<lparr>status = 200, body = [(''predicted_level'', ''beginner'')]\<rparr>"
  by code_simp


subsection \<open>Startup\<close>

text \<open>
  Claim C8: the process ends with a fatal error exactly when one of the three artifact
  files is missing or corrupt; in that case no request is answered; otherwise every request
  is answered.
\<close>

theorem artifact_load_failure_is_fatal:
  "(fatal (run d requests) \<noteq> None) =
     (\<not> loads (coa_model_pkl d) \<or> \<not> loads (topic_encoder_pkl d) \<or> \<not> loads (level_encoder_pkl d))
   \<and> (fatal (run d requests) \<noteq> None \<longrightarrow> responses (run d requests) = [])
   \<and> (fatal (run d requests) = None \<longrightarrow> length (responses (run d requests)) = length requests)"
  using load_artifacts_fails [of d]
  by (cases "load_artifacts d") (auto simp: run_def serve_map)

theorem artifact_load_failure_is_fatal_witness:
  "\<not> loads (topic_encoder_pkl broken_disk)
   \<and> fatal (run broken_disk [algebra_payload]) \<noteq> None
   \<and> responses (run broken_disk [algebra_payload]) = []
   \<and> loads (coa_model_pkl demo_disk)
   \<and> loads (topic_encoder_pkl demo_disk)
   \<and> loads (level_encoder_pkl demo_disk)
   \<and> fatal (run demo_disk [algebra_payload]) = None
   \<and> length (responses (run demo_disk [algebra_payload])) = length [algebra_payload]"
proof -
  have h1: "\<not> loads (topic_encoder_pkl broken_disk)"
    by (simp add: broken_disk_def)
  have h2: "loads (coa_model_pkl demo_disk)"
    by (simp add: demo_disk_def)
  have h3: "loads (topic_encoder_pkl demo_disk)"
    by (simp add: demo_disk_def)
  have h4: "loads (level_encoder_pkl demo_disk)"
    by (simp add: demo_disk_def)
  from artifact_load_failure_is_fatal [of broken_disk "[algebra_payload]"] h1
  have b: "fatal (run broken_disk [algebra_payload]) \<noteq> None
         \<and> responses (run broken_disk [algebra_payload]) = []"
    by blast
  from artifact_load_failure_is_fatal [of demo_disk "[algebra_payload]"] h2 h3 h4
  have d: "fatal (run demo_disk [algebra_payload]) = None
         \<and> length (responses (run demo_disk [algebra_payload])) = length [algebra_payload]"
    by blast
  show ?thesis
    by (intro conjI)
       (rule h1 h2 h3 h4 b [THEN conjunct1] b [THEN conjunct2]
             d [THEN conjunct1] d [THEN conjunct2])+
qed

subsection \<open>Numbers given as strings\<close>

text \<open>
  Claim C9, as stated, says that a string that parses as a number is accepted and the
  request succeeds, and that a present value is rejected with a 400 if and only if its
  conversion raises. The string \<^verbatim>\<open>"Infinity"\<close> parses as a float: in the request below no
  conversion raises, the topic is known, and the response is a 400, because the example
  classifier refuses the row.
\<close>

theorem numeric_strings_counterexample:
  "infinity_payload ''topic'' = Some (PyStr ''algebra'')
   \<and> ''algebra'' \<in> set (topic_encoder demo_globals)
   \<and> infinity_payload ''accuracy_percent'' = Some (PyStr ''85'')
   \<and> py_float (PyStr ''85'') = Inr (Finite 85)
   \<and> infinity_payload ''avg_time_seconds'' = Some (PyStr ''Infinity'')
   \<and> py_float (PyStr ''Infinity'') = Inr PosInf
   \<and> infinity_payload ''attempts'' = Some (PyStr ''2'')
   \<and> py_int (PyStr ''2'') = Inr 2
   \<and> post_predict demo_globals infinity_payload
       = \<lparr>status = 400, body = [(''detail'', ''Input X contains NaN or infinity.'')]\<rparr>"
  by code_simp

text \<open>
  Claim C9, amended: take a payload with the four keys whose topic is in the vocabulary, and
  a classifier that answers every row assembled from converted values with one class id of
  the level vocabulary. Then the response has status 400 if and only if \<^verbatim>\<open>float\<close> raises on
  \<^verbatim>\<open>accuracy_percent\<close> or on \<^verbatim>\<open>avg_time_seconds\<close>, or \<^verbatim>\<open>int\<close> raises on \<^verbatim>\<open>attempts\<close>, and status 200
  if and only if none raises: a string that converts is accepted and the request succeeds.
  The response is the 400 of the first conversion that raises, with its message, and
  otherwise the response to the payload that carries the converted numbers in place of the
  given values.
\<close>

theorem numeric_strings_accepted:
  assumes "data ''topic'' = Some (PyStr t)"
    and "index_of (topic_encoder g) t = Some k"
    and "data ''accuracy_percent'' = Some v1"
    and "data ''avg_time_seconds'' = Some v2"
    and "data ''attempts'' = Some v3"
    and "\<And>a b n. py_float v1 = Inr a \<Longrightarrow> py_float v2 = Inr b \<Longrightarrow> py_int v3 = Inr n \<Longrightarrow>
           \<exists>c. model g [[PyFloat a, PyFloat b, PyInt n, PyInt k]] = Inr [c]
               \<and> 0 \<le> c \<and> c < int (length (level_encoder g))"
  shows "(status (post_predict g data) = 400)
           = (isl (py_float v1) \<or> isl (py_float v2) \<or> isl (py_int v3))
       \<and> (status (post_predict g data) = 200)
           = (\<not> isl (py_float v1) \<and> \<not> isl (py_float v2) \<and> \<not> isl (py_int v3))
       \<and> post_predict g data =
          (case py_float v1 of Inl e \<Rightarrow> bad_request (str e) | Inr a \<Rightarrow>
           case py_float v2 of Inl e \<Rightarrow> bad_request (str e) | Inr b \<Rightarrow>
           case py_int v3 of Inl e \<Rightarrow> bad_request (str e) | Inr n \<Rightarrow>
           post_predict g (data(''accuracy_percent'' \<mapsto> PyFloat a,
                                ''avg_time_seconds'' \<mapsto> PyFloat b,
                                ''attempts'' \<mapsto> PyInt n)))"
proof -
  note eq = post_predict_conversions [OF assms(1) assms(3-5), of g]
  have rejected: "status (post_predict g data) = 400"
    if "isl (py_float v1) \<or> isl (py_float v2) \<or> isl (py_int v3)"
    using that unfolding eq by (auto simp: isl_def split: sum.splits)
  have accepted: "status (post_predict g data) = 200"
    if "\<not> isl (py_float v1)" and "\<not> isl (py_float v2)" and "\<not> isl (py_int v3)"
  proof -
    from that obtain a b n
      where conv: "py_float v1 = Inr a" "py_float v2 = Inr b" "py_int v3 = Inr n"
      by (auto simp: not_isl_Inr)
    from assms(6) [OF conv] obtain c
      where "model g [[PyFloat a, PyFloat b, PyInt n, PyInt k]] = Inr [c]"
        and "0 \<le> c" and "c < int (length (level_encoder g))"
      by blast
    from post_predict_success
           [OF assms(1,2) assms(3) conv(1) assms(4) conv(2) assms(5) conv(3) this]
    show ?thesis
      by simp
  qed
  from accepted
  have accepted': "\<not> isl (py_float v1) \<and> \<not> isl (py_float v2) \<and> \<not> isl (py_int v3)
                   \<longrightarrow> status (post_predict g data) = 200"
    by blast
  from rejected
  have rejected': "isl (py_float v1) \<or> isl (py_float v2) \<or> isl (py_int v3)
                   \<longrightarrow> status (post_predict g data) = 400"
    by blast
  from rejected' accepted'
  have "(status (post_predict g data) = 400)
          = (isl (py_float v1) \<or> isl (py_float v2) \<or> isl (py_int v3))"
    and "(status (post_predict g data) = 200)
          = (\<not> isl (py_float v1) \<and> \<not> isl (py_float v2) \<and> \<not> isl (py_int v3))"
    by auto
  with eq show ?thesis
    by blast
qed

theorem numeric_strings_accepted_witness:
  "string_payload ''topic'' = Some (PyStr ''algebra'')
   \<and> index_of (topic_encoder demo_globals) ''algebra'' = Some 0
   \<and> string_payload ''accuracy_percent'' = Some (PyStr ''85'')
   \<and> string_payload ''avg_time_seconds'' = Some (PyStr ''12.5'')
   \<and> string_payload ''attempts'' = Some (PyStr ''2'')
   \<and> py_float (PyStr ''85'') = Inr (Finite 85)
   \<and> py_float (PyStr ''12.5'') = Inr (Finite (25 / 2))
   \<and> py_int (PyStr ''2'') = Inr 2
   \<and> model demo_globals [[PyFloat (Finite 85), PyFloat (Finite (25 / 2)), PyInt 2, PyInt 0]]
       = Inr [2]
   \<and> status (post_predict demo_globals string_payload) = 200
   \<and> post_predict demo_globals string_payload
       = \<lparr>status = 200, body = [(''predicted_level'', ''intermediate'')]\<rparr>"
proof -
  have h1: "string_payload ''topic'' = Some (PyStr ''algebra'')"
    by code_simp
  have h2: "index_of (topic_encoder demo_globals) ''algebra'' = Some 0"
    by code_simp
  have h3: "string_payload ''accuracy_percent'' = Some (PyStr ''85'')"
    by code_simp
  have h4: "string_payload ''avg_time_seconds'' = Some (PyStr ''12.5'')"
    by code_simp
  have h5: "string_payload ''attempts'' = Some (PyStr ''2'')"
    by code_simp
  have e1: "py_float (PyStr ''85'') = Inr (Finite 85)"
    by code_simp
  have e2: "py_float (PyStr ''12.5'') = Inr (Finite (25 / 2))"
    by code_simp
  have e3: "py_int (PyStr ''2'') = Inr 2"
    by code_simp
  have m: "model demo_globals
             [[PyFloat (Finite 85), PyFloat (Finite (25 / 2)), PyInt 2, PyInt 0]] = Inr [2]"
    by code_simp
  have len: "(2::int) < int (length (level_encoder demo_globals))"
    by code_simp
  have ok: "\<exists>c. model demo_globals [[PyFloat a, PyFloat b, PyInt n, PyInt 0]] = Inr [c]
               \<and> 0 \<le> c \<and> c < int (length (level_encoder demo_globals))"
    if "py_float (PyStr ''85'') = Inr a" and "py_float (PyStr ''12.5'') = Inr b"
      and "py_int (PyStr ''2'') = Inr n" for a b n
  proof -
    from that have "a = Finite 85" and "b = Finite (25 / 2)" and "n = 2"
      unfolding e1 e2 e3 by simp_all
    with m len show ?thesis
      by simp
  qed
  have r: "post_predict demo_globals
             (string_payload(''accuracy_percent'' \<mapsto> PyFloat (Finite 85),
                             ''avg_time_seconds'' \<mapsto> PyFloat (Finite (25 / 2)),
                             ''attempts'' \<mapsto> PyInt 2))
             = \<lparr>status = 200, body = [(''predicted_level'', ''intermediate'')]\<rparr>"
    by code_simp
  note c = numeric_strings_accepted
             [where data = string_payload and g = demo_globals and t = "''algebra''" and k = 0,
              OF h1 h2 h3 h4 h5 ok]
  have s: "status (post_predict demo_globals string_payload) = 200"
    using c [THEN conjunct2, THEN conjunct1] by (simp only: e1 e2 e3 sum.disc simp_thms)
  have p: "post_predict demo_globals string_payload
             = \<lparr>status = 200, body = [(''predicted_level'', ''intermediate'')]\<rparr>"
    using c [THEN conjunct2, THEN conjunct2] by (simp only: e1 e2 e3 sum.case r)
  show ?thesis
    by (intro conjI) (rule h1 h2 h3 h4 h5 e1 e2 e3 m s p)+
qed

subsection \<open>Fractional attempts\<close>




end
